theory Spec2Isabelle
  imports Complex_Main
begin

section \<open>Data model (src/types)\<close>

text \<open>
  Instants (JavaScript \<open>Date\<close> values) are integers: milliseconds since the epoch.
  The process's local time zone is taken to be UTC (the deployment target runs in UTC), so
  \<open>getHours\<close>, \<open>setHours\<close>, \<open>setDate\<close> and \<open>toDateString\<close> are plain
  arithmetic on that number. Durations and buffers are integer minutes.

  A \<open>Date\<close> holds a time value of at most 8.64e15 milliseconds in absolute value;
  \<open>new Date(t)\<close> of a number outside that range is an Invalid Date. The instants that
  the clock, the configuration and the calendar supply are inside the range. The one
  \<open>Date\<close> that the source builds from a number of the task is the end of a proposed
  slot (the start plus the duration), and there the model follows the Invalid Date.
\<close>

datatype quality = excellent | good | acceptable | poor

datatype priority = High | Medium | Low

text \<open>\<open>TimeSlot\<close>: the fields \<open>start\<close> and \<open>end\<close> are \<open>slot_start\<close> and \<open>slot_end\<close>.\<close>

record TimeSlot =
  slot_start :: int
  slot_end :: int
  duration :: int
  quality :: quality
  conflicts :: bool

text \<open>\<open>CalendarEvent\<close>: the fields \<open>id\<close>, \<open>start\<close> and \<open>end\<close> carry the prefix \<open>ev_\<close>.\<close>

record CalendarEvent =
  ev_id :: string
  summary :: string
  ev_start :: int
  ev_end :: int
  allDay :: bool

text \<open>\<open>WorkHours\<close> (\<open>DEFAULT_WORK_HOURS\<close> is read from the environment, so it is a
  parameter of the model; the defaults are 9 and 17).\<close>

record WorkHours =
  wh_start :: int
  wh_end :: int

record FocusTypeConfig =
  preferred_hours :: "int list"
  min_duration :: int
  max_duration :: int
  preferred_duration :: int
  requires_buffer :: bool
  cfg_buffer_before :: int
  cfg_buffer_after :: int

text \<open>
  \<open>TaskData\<close>. The date strings \<open>due_date\<close>, \<open>created_at\<close> and
  \<open>last_edited_time\<close> are held as the instants they parse to; an absent optional field
  is \<open>None\<close>.
\<close>

record TaskData =
  task_id :: string
  task_name :: string
  estimated_duration :: int
  priority :: priority
  focus_type :: string
  domain :: "string option"
  preferred_times :: "string list"
  due_date :: int
  buffer_before :: int
  buffer_after :: int
  flexible :: bool
  created_at :: "int option"
  last_edited_time :: "int option"

section \<open>Dates\<close>

definition MINUTE :: int where "MINUTE = 60000"
definition HOUR :: int where "HOUR = 3600000"
definition DAY :: int where "DAY = 86400000"

text \<open>The time values a \<open>Date\<close> can hold; any other number gives an Invalid Date.\<close>

definition validDate :: "int \<Rightarrow> bool" where
  "validDate t = (\<bar>t\<bar> \<le> 8640000000000000)"

text \<open>\<open>d.setHours(h, m, s, ms)\<close>: the same calendar day, at the given time of day.\<close>

definition setHours :: "int \<Rightarrow> int \<Rightarrow> int \<Rightarrow> int \<Rightarrow> int \<Rightarrow> int" where
  "setHours d h m s ms = (d div DAY) * DAY + h * HOUR + m * MINUTE + s * 1000 + ms"

definition getHours :: "int \<Rightarrow> int" where
  "getHours d = (d div HOUR) mod 24"

text \<open>\<open>d.toDateString()\<close> names the calendar day; the day number stands for the string.\<close>

definition toDateString :: "int \<Rightarrow> int" where
  "toDateString d = d div DAY"

section \<open>Array.prototype.sort\<close>

text \<open>
  The sort is stable and its comparator returns a number: negative when the first argument
  goes first. For a consistent comparator every stable sort gives the same array; the model
  is insertion from the right.
\<close>

fun insert_by :: "('a \<Rightarrow> 'a \<Rightarrow> int) \<Rightarrow> 'a \<Rightarrow> 'a list \<Rightarrow> 'a list" where
  "insert_by cmp x [] = [x]"
| "insert_by cmp x (y # ys) = (if cmp x y \<le> 0 then x # y # ys else y # insert_by cmp x ys)"

definition array_sort :: "('a \<Rightarrow> 'a \<Rightarrow> int) \<Rightarrow> 'a list \<Rightarrow> 'a list" where
  "array_sort cmp xs = foldr (insert_by cmp) xs []"

definition qualityOrder :: "quality \<Rightarrow> int" where
  "qualityOrder q = (case q of excellent \<Rightarrow> 4 | good \<Rightarrow> 3 | acceptable \<Rightarrow> 2 | poor \<Rightarrow> 1)"

text \<open>The comparator both services pass to \<open>sort\<close>: quality first, then time.\<close>

definition compareSlots :: "TimeSlot \<Rightarrow> TimeSlot \<Rightarrow> int" where
  "compareSlots a b =
     (let aQuality = qualityOrder (quality a);
          bQuality = qualityOrder (quality b)
      in if aQuality \<noteq> bQuality then bQuality - aQuality
         else slot_start a - slot_start b)"

section \<open>CalendarService\<close>

text \<open>
  \<open>getEvents\<close> asks the external calendar; it is a parameter of the model. It returns the
  events of a range, or throws (\<open>Inl\<close> with the error's message).
\<close>

type_synonym calendar = "int \<Rightarrow> int \<Rightarrow> string + CalendarEvent list"

text \<open>\<open>SCHEDULING_CONFIG.conflict_check_buffer\<close>\<close>

definition conflict_check_buffer :: int where
  "conflict_check_buffer = 5"

record ConflictCheck =
  hasConflicts :: bool
  conflictingEvents :: "CalendarEvent list"

definition checkConflicts :: "calendar \<Rightarrow> int \<Rightarrow> int \<Rightarrow> int \<Rightarrow> string + ConflictCheck" where
  "checkConflicts getEvents startTime endTime bufferMinutes =
     (let bufferStart = startTime - bufferMinutes * 60000;
          bufferEnd = endTime + bufferMinutes * 60000
      in case getEvents bufferStart bufferEnd of
           Inl e \<Rightarrow> Inl e
         | Inr events \<Rightarrow>
             (let conflicting =
                    filter (\<lambda>event.
                      if allDay event then False
                      else (ev_start event < endTime \<and> ev_end event > startTime) \<or>
                           (ev_start event < bufferEnd \<and> ev_end event > bufferStart)) events
              in Inr \<lparr>hasConflicts = (length conflicting > 0),
                      conflictingEvents = conflicting\<rparr>))"

text \<open>\<open>CalendarService.calculateSlotQuality\<close> (the generator's first rating of a slot).\<close>

definition CalendarService_calculateSlotQuality :: "int \<Rightarrow> int list \<Rightarrow> int \<Rightarrow> quality" where
  "CalendarService_calculateSlotQuality startTime preferredHours dur =
     (let hour = getHours startTime;
          q = (if hour \<in> set preferredHours then excellent
               else if list_ex (\<lambda>h. \<bar>h - hour\<bar> \<le> 1) preferredHours then good
               else acceptable)
      in if dur \<ge> 120 \<and> hour \<ge> 9 \<and> hour \<le> 14 then (if q = excellent then excellent else good)
         else if dur \<le> 30 \<and> hour \<ge> 15 then (if q = poor then poor else acceptable)
         else q)"

text \<open>
  The \<open>while (currentTime < workEnd)\<close> loop of \<open>findSlotsForDay\<close>: the state is
  \<open>currentTime\<close> and the array \<open>slots\<close>. A throw of \<open>checkConflicts\<close> leaves the loop.

  When \<open>slotEnd\<close> is an Invalid Date the comparison \<open>slotEnd > workEnd\<close> is false, so the
  loop does not break; \<open>checkConflicts\<close> then pads the Invalid Date and hands it to
  \<open>getEvents\<close>, where \<open>endTime.toISOString()\<close> throws the RangeError
  \<open>Invalid time value\<close>.
\<close>

function findSlotsForDay_loop ::
  "calendar \<Rightarrow> int list \<Rightarrow> int \<Rightarrow> int \<Rightarrow> int \<Rightarrow> TimeSlot list \<Rightarrow> string + TimeSlot list" where
  "findSlotsForDay_loop getEvents preferredHours dur workEnd currentTime slots =
     (if currentTime < workEnd then
        (let slotEnd = currentTime + dur * 60000
         in if validDate slotEnd \<and> slotEnd > workEnd then Inr slots
            else if \<not> validDate slotEnd then Inl ''Invalid time value''
            else (case checkConflicts getEvents currentTime slotEnd conflict_check_buffer of
                    Inl e \<Rightarrow> Inl e
                  | Inr r \<Rightarrow>
                      findSlotsForDay_loop getEvents preferredHours dur workEnd
                        (currentTime + 30 * 60000)
                        (if \<not> hasConflicts r then
                           slots @ [\<lparr>slot_start = currentTime, slot_end = slotEnd,
                                     duration = dur,
                                     quality = CalendarService_calculateSlotQuality
                                                 currentTime preferredHours dur,
                                     conflicts = False\<rparr>]
                         else slots)))
      else Inr slots)"
  by pat_completeness auto
termination
  by (relation "measure (\<lambda>(g, p, d, workEnd, currentTime, s). nat (workEnd - currentTime))") auto

text \<open>Lines 155-168 of the generator: the start of the working window of the day.\<close>

definition effectiveWorkStart :: "WorkHours \<Rightarrow> int \<Rightarrow> int \<Rightarrow> int" where
  "effectiveWorkStart wh now date =
     (let workStart = setHours date (wh_start wh) 0 0 0;
          isToday = (toDateString date = toDateString now)
      in if isToday then
           (let minStartTime = now + 60 * 60 * 1000
            in if minStartTime > workStart then minStartTime else workStart)
         else workStart)"

definition findSlotsForDay ::
  "WorkHours \<Rightarrow> calendar \<Rightarrow> int \<Rightarrow> int \<Rightarrow> int \<Rightarrow> int list \<Rightarrow> string + TimeSlot list" where
  "findSlotsForDay wh getEvents now date dur preferredHours =
     (if date < now then Inr []
      else
        (let workStart = effectiveWorkStart wh now date;
             workEnd = setHours date (wh_end wh) 0 0 0;
             dayStart = setHours date 0 0 0 0;
             dayEnd = setHours date 23 59 59 999
         in case getEvents dayStart dayEnd of
              Inl e \<Rightarrow> Inl e
            | Inr events \<Rightarrow>
                findSlotsForDay_loop getEvents preferredHours dur workEnd workStart []))"

text \<open>The \<open>while (currentDate <= endDate)\<close> loop of \<open>findAvailableSlots\<close>.\<close>

function findAvailableSlots_loop ::
  "WorkHours \<Rightarrow> calendar \<Rightarrow> int \<Rightarrow> int \<Rightarrow> int list \<Rightarrow> int \<Rightarrow> int \<Rightarrow> TimeSlot list
     \<Rightarrow> string + TimeSlot list" where
  "findAvailableSlots_loop wh getEvents now dur preferredHours endDate currentDate slots =
     (if currentDate \<le> endDate then
        (case findSlotsForDay wh getEvents now currentDate dur preferredHours of
           Inl e \<Rightarrow> Inl e
         | Inr daySlots \<Rightarrow>
             findAvailableSlots_loop wh getEvents now dur preferredHours endDate
               (currentDate + DAY) (slots @ daySlots))
      else Inr slots)"
  by pat_completeness auto
termination
  by (relation "measure (\<lambda>(w, g, n, d, p, endDate, currentDate, s). nat (endDate + 1 - currentDate))")
     (auto simp: DAY_def)

definition findAvailableSlots ::
  "WorkHours \<Rightarrow> calendar \<Rightarrow> int \<Rightarrow> int \<Rightarrow> int \<Rightarrow> int \<Rightarrow> int list \<Rightarrow> string + TimeSlot list" where
  "findAvailableSlots wh getEvents now startDate endDate dur preferredHours =
     (case findAvailableSlots_loop wh getEvents now dur preferredHours endDate startDate [] of
        Inl e \<Rightarrow> Inl e
      | Inr slots \<Rightarrow> Inr (array_sort compareSlots slots))"

section \<open>Configuration (src/config)\<close>

definition FOCUS_TYPE_CONFIGS :: "(string \<times> FocusTypeConfig) list" where
  "FOCUS_TYPE_CONFIGS =
     [(''Deep Work'',
         \<lparr>preferred_hours = [9, 10, 11, 12, 13, 14], min_duration = 60, max_duration = 240,
          preferred_duration = 120, requires_buffer = True,
          cfg_buffer_before = 15, cfg_buffer_after = 15\<rparr>),
      (''Admin'',
         \<lparr>preferred_hours = [9, 10, 11, 12, 13, 14, 15, 16], min_duration = 15,
          max_duration = 90, preferred_duration = 30, requires_buffer = False,
          cfg_buffer_before = 5, cfg_buffer_after = 5\<rparr>),
      (''Calls'',
         \<lparr>preferred_hours = [10, 11, 12, 13, 14, 15], min_duration = 15, max_duration = 120,
          preferred_duration = 60, requires_buffer = True,
          cfg_buffer_before = 10, cfg_buffer_after = 10\<rparr>),
      (''Creative'',
         \<lparr>preferred_hours = [9, 10, 11, 12, 13, 14, 15], min_duration = 30,
          max_duration = 180, preferred_duration = 90, requires_buffer = True,
          cfg_buffer_before = 10, cfg_buffer_after = 10\<rparr>)]"

definition PRIORITY_WEIGHTS :: "priority \<Rightarrow> real" where
  "PRIORITY_WEIGHTS p = (case p of High \<Rightarrow> 3 | Medium \<Rightarrow> 2 | Low \<Rightarrow> 1)"

section \<open>SchedulingService\<close>

text \<open>
  One request reads the clock in several places (\<open>new Date()\<close>, \<open>Date.now()\<close>,
  \<open>moment()\<close>); every read is taken to return the same instant \<open>now\<close>, which is
  a parameter of each function that reads the clock. Numbers that the source computes in
  floating point (the urgency, the hours since a task was created) are reals here.
\<close>

datatype status = Scheduled | Conflict | NoSlots | Error

text \<open>
  The messages of the service, one constructor per message text of the source; a
  constructor's arguments are the values the source prints into the text.
\<close>

datatype message =
    TaskIdRequired
  | ValidDurationRequired
  | ValidPriorityRequired
  | ValidFocusTypeRequired
  | TaskValidationFailed
  | UnknownFocusType string
  | NoAvailableSlots
  | NoSuitableSlots
  | TooSoon int
  | ScheduledTimeValidationFailed
  | NotionUpdateFailed
  | ScheduledFor "int \<times> int"
  | TaskScheduledFor "int \<times> int"
  | SchedulingError string

record SchedulingResult =
  success :: bool
  scheduled_time :: "(int \<times> int) option"
  status :: status
  message :: message
  alternative_slots :: "TimeSlot list option"

record NotionTaskUpdate =
  time_block_start :: int
  time_block_end :: int
  scheduling_status :: string
  scheduling_message :: message

record Validation =
  valid :: bool
  vmessage :: "message option"

definition timeMapping :: "(string \<times> int list) list" where
  "timeMapping =
     [(''morning'', [9, 10, 11, 12]), (''afternoon'', [13, 14, 15, 16]),
      (''evening'', [17, 18, 19])]"

definition convertPreferredTimesToHours :: "string list \<Rightarrow> string option \<Rightarrow> int list" where
  "convertPreferredTimesToHours preferredTimes taskDomain =
     (let hours = concat (map (\<lambda>time. case map_of timeMapping time of
                                          Some hs \<Rightarrow> hs | None \<Rightarrow> []) preferredTimes)
      in if length hours = 0 \<or> taskDomain = Some ''Work'' then [9, 10, 11, 12, 13, 14, 15, 16]
         else if length hours > 0 then hours
         else [9, 10, 11, 12, 13, 14, 15, 16, 17, 18, 19])"

text \<open>\<open>SchedulingService.calculateSlotQuality\<close> (the slot scorer).\<close>

definition SchedulingService_calculateSlotQuality ::
  "int \<Rightarrow> TimeSlot \<Rightarrow> TaskData \<Rightarrow> FocusTypeConfig \<Rightarrow> quality" where
  "SchedulingService_calculateSlotQuality now slot taskData focusConfig =
     (let slotHour = getHours (slot_start slot);
          isPreferredHour = (slotHour \<in> set (preferred_hours focusConfig));
          q1 = (if isPreferredHour then excellent
                else if list_ex (\<lambda>h. \<bar>h - slotHour\<bar> \<le> 1) (preferred_hours focusConfig)
                     then good
                else acceptable);
          q2 = (if focus_type taskData = ''Deep Work'' \<and> duration slot \<ge> 120
                then (if q1 = excellent then excellent else good) else q1);
          q3 = (if priority taskData = High
                then (if q2 = poor then acceptable else q2) else q2);
          q4 = (case created_at taskData of
                  None \<Rightarrow> q3
                | Some createdTime \<Rightarrow>
                    if real_of_int (now - createdTime) / (1000 * 60 * 60) < 1
                    then (if q3 = acceptable then good
                          else if q3 = good then excellent else q3)
                    else q3);
          q5 = (case last_edited_time taskData of
                  None \<Rightarrow> q4
                | Some editedTime \<Rightarrow>
                    if real_of_int (now - editedTime) / (1000 * 60 * 60) < 1
                    then (if q4 = acceptable then good else q4)
                    else q4)
      in q5)"

definition filterAndScoreSlots ::
  "int \<Rightarrow> TimeSlot list \<Rightarrow> TaskData \<Rightarrow> FocusTypeConfig \<Rightarrow> TimeSlot list" where
  "filterAndScoreSlots now slots taskData focusConfig =
     array_sort compareSlots
       (map (\<lambda>slot. slot\<lparr>quality :=
                 SchedulingService_calculateSlotQuality now slot taskData focusConfig\<rparr>)
          (filter (\<lambda>slot.
             if duration slot < min_duration focusConfig then False
             else if duration slot > max_duration focusConfig then False
             else (let slotHour = getHours (slot_start slot);
                       isPreferredHour = (slotHour \<in> set (preferred_hours focusConfig))
                   in if priority taskData = High then True
                      else isPreferredHour \<or> flexible taskData)) slots))"

definition selectBestSlot :: "TimeSlot list \<Rightarrow> TaskData \<Rightarrow> real \<Rightarrow> TimeSlot option" where
  "selectBestSlot slots taskData urgency =
     (if length slots = 0 then None
      else if urgency > 0.8 then
        (let goodSlots = filter (\<lambda>s. quality s = excellent \<or> quality s = good) slots
         in if length goodSlots > 0 then Some (goodSlots ! 0) else Some (slots ! 0))
      else Some (slots ! 0))"

text \<open>
  \<open>dueDate.diff(now, 'days')\<close>: the whole days between the two instants, truncated
  towards zero.
\<close>

definition diff_days :: "int \<Rightarrow> int \<Rightarrow> int" where
  "diff_days due now =
     (let d = due - now in if d < 0 then - ((- d) div DAY) else d div DAY)"

definition calculateUrgency :: "int \<Rightarrow> TaskData \<Rightarrow> real" where
  "calculateUrgency now taskData =
     (let daysUntilDue = diff_days (due_date taskData) now;
          urgency0 = 0 + PRIORITY_WEIGHTS (priority taskData) * 0.3;
          urgency = (if daysUntilDue \<le> 0 then urgency0 + 1.0
                     else if daysUntilDue \<le> 1 then urgency0 + 0.8
                     else if daysUntilDue \<le> 3 then urgency0 + 0.6
                     else if daysUntilDue \<le> 7 then urgency0 + 0.4
                     else urgency0)
      in min urgency 1.0)"

definition validateTaskData :: "TaskData \<Rightarrow> Validation" where
  "validateTaskData taskData =
     (if task_id taskData = [] then \<lparr>valid = False, vmessage = Some TaskIdRequired\<rparr>
      else if estimated_duration taskData = 0 \<or> estimated_duration taskData \<le> 0
        then \<lparr>valid = False, vmessage = Some ValidDurationRequired\<rparr>
      else if \<not> (priority taskData \<in> set [High, Medium, Low])
        then \<lparr>valid = False, vmessage = Some ValidPriorityRequired\<rparr>
      else if focus_type taskData = [] \<or> map_of FOCUS_TYPE_CONFIGS (focus_type taskData) = None
        then \<lparr>valid = False, vmessage = Some ValidFocusTypeRequired\<rparr>
      else \<lparr>valid = True, vmessage = None\<rparr>)"

definition validateScheduledTime :: "int \<Rightarrow> int \<Rightarrow> Validation" where
  "validateScheduledTime now scheduledTime =
     (let minScheduledTime = now + 30 * 60 * 1000
      in if scheduledTime < minScheduledTime
         then \<lparr>valid = False, vmessage = Some (TooSoon scheduledTime)\<rparr>
         else \<lparr>valid = True, vmessage = None\<rparr>)"

definition getMaxSchedulingDate :: "int \<Rightarrow> int" where
  "getMaxSchedulingDate now = now + 14 * DAY"

text \<open>The pair of instants stands for the text \<open>formatTimeSlot\<close> prints.\<close>

definition formatTimeSlot :: "TimeSlot \<Rightarrow> int \<times> int" where
  "formatTimeSlot slot = (slot_start slot, slot_end slot)"

definition findOptimalTimeSlots ::
  "WorkHours \<Rightarrow> calendar \<Rightarrow> int \<Rightarrow> TaskData \<Rightarrow> FocusTypeConfig \<Rightarrow> string + TimeSlot list" where
  "findOptimalTimeSlots wh getEvents now taskData focusConfig =
     (let dur = max (estimated_duration taskData) (min_duration focusConfig);
          preferredHours =
            convertPreferredTimesToHours (preferred_times taskData) (domain taskData)
      in case findAvailableSlots wh getEvents now now (getMaxSchedulingDate now) dur
                preferredHours of
           Inl e \<Rightarrow> Inl e
         | Inr slots \<Rightarrow> Inr (filterAndScoreSlots now slots taskData focusConfig))"

definition failure :: "status \<Rightarrow> message \<Rightarrow> SchedulingResult" where
  "failure st msg =
     \<lparr>success = False, scheduled_time = None, status = st, message = msg,
      alternative_slots = None\<rparr>"

text \<open>
  \<open>scheduleTask\<close>. \<open>updateTask\<close> is the task store (\<open>NotionService.updateTask\<close>, which
  catches its own errors and answers with a flag); the second component of the result is
  the list of calls made to it. An exception thrown inside the \<open>try\<close> block is the
  \<open>Inl\<close> of the slot search, and the \<open>catch\<close> block turns it into an error outcome.
\<close>

definition scheduleTask ::
  "WorkHours \<Rightarrow> calendar \<Rightarrow> (string \<Rightarrow> NotionTaskUpdate \<Rightarrow> bool) \<Rightarrow> int \<Rightarrow> TaskData
     \<Rightarrow> SchedulingResult \<times> (string \<times> NotionTaskUpdate) list" where
  "scheduleTask wh getEvents updateTask now taskData =
     (let validation = validateTaskData taskData
      in if \<not> valid validation then
           (failure Error (case vmessage validation of
                             Some m \<Rightarrow> m | None \<Rightarrow> TaskValidationFailed), [])
         else
           (case map_of FOCUS_TYPE_CONFIGS (focus_type taskData) of
              None \<Rightarrow> (failure Error (UnknownFocusType (focus_type taskData)), [])
            | Some focusConfig \<Rightarrow>
                (let urgency = calculateUrgency now taskData
                 in case findOptimalTimeSlots wh getEvents now taskData focusConfig of
                      Inl e \<Rightarrow> (failure Error (SchedulingError e), [])
                    | Inr timeSlots \<Rightarrow>
                        if length timeSlots = 0 then (failure NoSlots NoAvailableSlots, [])
                        else
                          (case selectBestSlot timeSlots taskData urgency of
                             None \<Rightarrow>
                               ((failure NoSlots NoSuitableSlots)
                                  \<lparr>alternative_slots := Some (take 3 timeSlots)\<rparr>, [])
                           | Some bestSlot \<Rightarrow>
                               (let timeValidation =
                                      validateScheduledTime now (slot_start bestSlot)
                                in if \<not> valid timeValidation then
                                     (failure Error
                                        (case vmessage timeValidation of
                                           Some m \<Rightarrow> m
                                         | None \<Rightarrow> ScheduledTimeValidationFailed), [])
                                   else
                                     (let update =
                                            \<lparr>time_block_start = slot_start bestSlot,
                                             time_block_end = slot_end bestSlot,
                                             scheduling_status = ''Scheduled'',
                                             scheduling_message =
                                               ScheduledFor (formatTimeSlot bestSlot)\<rparr>;
                                          updateSuccess = updateTask (task_id taskData) update
                                      in if \<not> updateSuccess then
                                           (failure Error NotionUpdateFailed,
                                            [(task_id taskData, update)])
                                         else
                                           (\<lparr>success = True,
                                             scheduled_time =
                                               Some (slot_start bestSlot, slot_end bestSlot),
                                             status = Scheduled,
                                             message =
                                               TaskScheduledFor (formatTimeSlot bestSlot),
                                             alternative_slots = None\<rparr>,
                                            [(task_id taskData, update)])))))))"

section \<open>The words of the specification\<close>

text \<open>
  Two intervals overlap iff \<open>aStart < bEnd && aEnd > bStart\<close> (section 4.1 of the
  specification).
\<close>

definition overlaps :: "int \<Rightarrow> int \<Rightarrow> int \<Rightarrow> int \<Rightarrow> bool" where
  "overlaps aStart aEnd bStart bEnd = (aStart < bEnd \<and> aEnd > bStart)"

text \<open>
  The urgency of section 4.4 of the specification: \<open>priorityWeight\<close> is High=3, Medium=2,
  Low=1; \<open>timeUrgency\<close> is 1.0 for \<open>daysUntilDue \<le> 0\<close>, 0.8 for \<open>\<le> 1\<close>, 0.6 for
  \<open>\<le> 3\<close>, 0.4 for \<open>\<le> 7\<close> and 0.0 otherwise.
\<close>

definition priorityWeight :: "priority \<Rightarrow> real" where
  "priorityWeight p = (case p of High \<Rightarrow> 3 | Medium \<Rightarrow> 2 | Low \<Rightarrow> 1)"

definition timeUrgency :: "int \<Rightarrow> real" where
  "timeUrgency daysUntilDue =
     (if daysUntilDue \<le> 0 then 1.0
      else if daysUntilDue \<le> 1 then 0.8
      else if daysUntilDue \<le> 3 then 0.6
      else if daysUntilDue \<le> 7 then 0.4
      else 0.0)"

section \<open>Auxiliary definitions\<close>

text \<open>The slot that the loop of \<open>findSlotsForDay\<close> pushes at the step position \<open>t\<close>.\<close>

definition newSlot :: "int list \<Rightarrow> int \<Rightarrow> int \<Rightarrow> TimeSlot" where
  "newSlot preferredHours dur t =
     \<lparr>slot_start = t, slot_end = t + dur * 60000, duration = dur,
      quality = CalendarService_calculateSlotQuality t preferredHours dur, conflicts = False\<rparr>"

text \<open>No slot of the list has a higher quality than its first slot.\<close>

definition top_first :: "TimeSlot list \<Rightarrow> bool" where
  "top_first xs = (\<forall>s \<in> set xs. qualityOrder (quality s) \<le> qualityOrder (quality (xs ! 0)))"

subsection \<open>Example inputs\<close>

text \<open>
  A calendar with one long event from the instant \<open>t\<close> on, an empty calendar, a task
  store that accepts every update, the default work hours and five tasks. The day of the
  examples starts at 1728000000000 (2024-10-04 00:00 UTC).
\<close>

definition conferenceFrom :: "int \<Rightarrow> calendar" where
  "conferenceFrom t =
     (\<lambda>a b. Inr [\<lparr>ev_id = ''c'', summary = ''Conference'', ev_start = t,
                   ev_end = 1800000000000, allDay = False\<rparr>])"

definition inboxTask :: TaskData where
  "inboxTask =
     \<lparr>task_id = ''t1'', task_name = ''Inbox'', estimated_duration = 60, priority = Medium,
      focus_type = ''Admin'', domain = None, preferred_times = [''morning''],
      due_date = 1730000000000, buffer_before = 15, buffer_after = 15, flexible = True,
      created_at = None, last_edited_time = None\<rparr>"

definition callTask :: TaskData where
  "callTask =
     \<lparr>task_id = ''t2'', task_name = ''Call'', estimated_duration = 60, priority = High,
      focus_type = ''Calls'', domain = None, preferred_times = [''morning''],
      due_date = 1728000000000, buffer_before = 15, buffer_after = 15, flexible = True,
      created_at = None, last_edited_time = None\<rparr>"

definition workshopTask :: TaskData where
  "workshopTask =
     \<lparr>task_id = ''t3'', task_name = ''Workshop'', estimated_duration = 600, priority = Low,
      focus_type = ''Creative'', domain = None, preferred_times = [''afternoon''],
      due_date = 1730000000000, buffer_before = 15, buffer_after = 15, flexible = True,
      created_at = None, last_edited_time = None\<rparr>"






definition adminConfig :: FocusTypeConfig where
  "adminConfig =
     \<lparr>preferred_hours = [9, 10, 11, 12, 13, 14, 15, 16], min_duration = 15,
      max_duration = 90, preferred_duration = 30, requires_buffer = False,
      cfg_buffer_before = 5, cfg_buffer_after = 5\<rparr>"

definition callsConfig :: FocusTypeConfig where
  "callsConfig =
     \<lparr>preferred_hours = [10, 11, 12, 13, 14, 15], min_duration = 15, max_duration = 120,
      preferred_duration = 60, requires_buffer = True,
      cfg_buffer_before = 10, cfg_buffer_after = 10\<rparr>"

declare findSlotsForDay_loop.simps [simp del]
declare findAvailableSlots_loop.simps [simp del]

section \<open>The conflict checker\<close>

text \<open>
  What \<open>checkConflicts\<close> computes, for any buffer: an event that is not all-day conflicts
  when it overlaps the window itself or the padded window.
\<close>

lemma checkConflicts_Inr:
  assumes "getEvents (startTime - bufferMinutes * 60000) (endTime + bufferMinutes * 60000)
             = Inr events"
  shows "checkConflicts getEvents startTime endTime bufferMinutes =
           Inr \<lparr>hasConflicts =
                  (\<exists>ev \<in> set events. \<not> allDay ev \<and>
                     (overlaps (ev_start ev) (ev_end ev) startTime endTime \<or>
                      overlaps (ev_start ev) (ev_end ev)
                        (startTime - bufferMinutes * 60000) (endTime + bufferMinutes * 60000))),
                conflictingEvents =
                  filter (\<lambda>ev. \<not> allDay ev \<and>
                     (overlaps (ev_start ev) (ev_end ev) startTime endTime \<or>
                      overlaps (ev_start ev) (ev_end ev)
                        (startTime - bufferMinutes * 60000) (endTime + bufferMinutes * 60000)))
                    events\<rparr>"
proof -
  have "(0 < length (filter P events)) = (\<exists>ev \<in> set events. P ev)"
    for P :: "CalendarEvent \<Rightarrow> bool"
    by (simp add: filter_empty_conv)
  then show ?thesis
    using assms by (auto simp: checkConflicts_def Let_def overlaps_def intro!: filter_cong)
qed

lemma checkConflicts_Inl:
  "getEvents (startTime - bufferMinutes * 60000) (endTime + bufferMinutes * 60000) = Inl e
     \<Longrightarrow> checkConflicts getEvents startTime endTime bufferMinutes = Inl e"
  by (simp add: checkConflicts_def)

text \<open>
  C2. With a buffer of \<open>bufferMinutes \<ge> 0\<close> minutes the window is padded outward by the
  buffer on both sides, and \<open>checkConflicts\<close> reports a conflict exactly when some event
  of the list the calendar returned that is not all-day overlaps the padded window
  (\<open>aStart < bEnd && aEnd > bStart\<close>). With a buffer of zero it reports a conflict whenever
  such an event overlaps the window, and none when every event ends at or before the
  window's start or starts at or after its end (shared boundary instants included).
\<close>

theorem checkConflicts_padded_overlap:
  assumes "0 \<le> bufferMinutes"
    and "getEvents (startTime - bufferMinutes * 60000) (endTime + bufferMinutes * 60000)
           = Inr events"
  shows "\<exists>r. checkConflicts getEvents startTime endTime bufferMinutes = Inr r \<and>
            (hasConflicts r \<longleftrightarrow>
               (\<exists>ev \<in> set events. \<not> allDay ev \<and>
                  overlaps (ev_start ev) (ev_end ev)
                    (startTime - bufferMinutes * 60000) (endTime + bufferMinutes * 60000))) \<and>
            (bufferMinutes = 0 \<and>
             (\<exists>ev \<in> set events. \<not> allDay ev \<and> ev_start ev < endTime \<and> ev_end ev > startTime)
               \<longrightarrow> hasConflicts r) \<and>
            (bufferMinutes = 0 \<and>
             (\<forall>ev \<in> set events. ev_end ev \<le> startTime \<or> endTime \<le> ev_start ev)
               \<longrightarrow> \<not> hasConflicts r)"
proof -
  let ?bs = "startTime - bufferMinutes * 60000"
  let ?be = "endTime + bufferMinutes * 60000"
  have sub: "overlaps a b startTime endTime \<Longrightarrow> overlaps a b ?bs ?be" for a b
    using assms(1) by (auto simp: overlaps_def intro: less_le_trans le_less_trans)
  have "checkConflicts getEvents startTime endTime bufferMinutes =
          Inr \<lparr>hasConflicts =
                 (\<exists>ev \<in> set events. \<not> allDay ev \<and>
                    (overlaps (ev_start ev) (ev_end ev) startTime endTime \<or>
                     overlaps (ev_start ev) (ev_end ev) ?bs ?be)),
               conflictingEvents =
                 filter (\<lambda>ev. \<not> allDay ev \<and>
                    (overlaps (ev_start ev) (ev_end ev) startTime endTime \<or>
                     overlaps (ev_start ev) (ev_end ev) ?bs ?be)) events\<rparr>"
    using assms(2) by (rule checkConflicts_Inr)
  then show ?thesis
    using sub by (auto simp: overlaps_def)
qed

text \<open>
  A window from minute 100 to minute 160 and a meeting from minute 160 to minute 200:
  with the buffer of 5 minutes they conflict, with no buffer they only touch.
\<close>

theorem checkConflicts_padded_overlap_witness:
  "(\<exists>r. checkConflicts
          (\<lambda>a b. Inr [\<lparr>ev_id = ''e'', summary = ''m'', ev_start = 9600000,
                        ev_end = 12000000, allDay = False\<rparr>])
          6000000 9600000 5 = Inr r \<and> hasConflicts r) \<and>
   (\<exists>r. checkConflicts
          (\<lambda>a b. Inr [\<lparr>ev_id = ''e'', summary = ''m'', ev_start = 9600000,
                        ev_end = 12000000, allDay = False\<rparr>])
          6000000 9600000 0 = Inr r \<and> \<not> hasConflicts r)"
  using checkConflicts_padded_overlap
          [of 5 "\<lambda>a b. Inr [\<lparr>ev_id = ''e'', summary = ''m'', ev_start = 9600000,
                               ev_end = 12000000, allDay = False\<rparr>]"
              6000000 9600000
              "[\<lparr>ev_id = ''e'', summary = ''m'', ev_start = 9600000,
                 ev_end = 12000000, allDay = False\<rparr>]"]
        checkConflicts_padded_overlap
          [of 0 "\<lambda>a b. Inr [\<lparr>ev_id = ''e'', summary = ''m'', ev_start = 9600000,
                               ev_end = 12000000, allDay = False\<rparr>]"
              6000000 9600000
              "[\<lparr>ev_id = ''e'', summary = ''m'', ev_start = 9600000,
                 ev_end = 12000000, allDay = False\<rparr>]"]
  by (simp add: overlaps_def)

section \<open>The day slot generator\<close>

text \<open>
  Every slot the loop returns was in the array at the start or was pushed at a step
  position at or after the current one, where it fits before the end of the working
  window and \<open>checkConflicts\<close> found no conflict.
\<close>

lemma findSlotsForDay_loop_members:
  "findSlotsForDay_loop getEvents preferredHours dur workEnd currentTime acc = Inr slots \<Longrightarrow>
   s \<in> set slots \<Longrightarrow>
   s \<in> set acc \<or>
   (\<exists>t r. currentTime \<le> t \<and> t + dur * 60000 \<le> workEnd \<and>
          checkConflicts getEvents t (t + dur * 60000) conflict_check_buffer = Inr r \<and>
          \<not> hasConflicts r \<and> s = newSlot preferredHours dur t)"
proof (induction getEvents preferredHours dur workEnd currentTime acc
       rule: findSlotsForDay_loop.induct)
  case (1 getEvents preferredHours dur workEnd currentTime acc)
  note unroll = findSlotsForDay_loop.simps
                  [of getEvents preferredHours dur workEnd currentTime acc]
  show ?case
  proof (cases "currentTime < workEnd \<and> currentTime + dur * 60000 \<le> workEnd")
    case False
    with "1.prems" show ?thesis
      by (auto simp: unroll Let_def split: if_splits)
  next
    case True
    have vd: "validDate (currentTime + dur * 60000)"
      using "1.prems"(1) True by (auto simp: unroll Let_def split: if_splits)
    from True obtain r where r: "checkConflicts getEvents currentTime (currentTime + dur * 60000)
                                conflict_check_buffer = Inr r"
      using "1.prems"(1) vd by (auto simp: unroll Let_def split: sum.splits)
    show ?thesis
    proof (cases "hasConflicts r")
      case True
      have run: "findSlotsForDay_loop getEvents preferredHours dur workEnd
                   (currentTime + 30 * 60000) acc = Inr slots"
        using "1.prems"(1) \<open>currentTime < workEnd \<and> _\<close> r True vd
        by (simp add: unroll Let_def)
      have "s \<in> set acc \<or>
          (\<exists>t r. currentTime + 30 * 60000 \<le> t \<and> t + dur * 60000 \<le> workEnd \<and>
             checkConflicts getEvents t (t + dur * 60000) conflict_check_buffer = Inr r \<and>
             \<not> hasConflicts r \<and> s = newSlot preferredHours dur t)"
        using "1.IH" [of "currentTime + dur * 60000" r] \<open>currentTime < workEnd \<and> _\<close>
              r run "1.prems"(2) True vd
        by simp
      then show ?thesis by force
    next
      case False
      have run: "findSlotsForDay_loop getEvents preferredHours dur workEnd
                   (currentTime + 30 * 60000)
                   (acc @ [newSlot preferredHours dur currentTime]) = Inr slots"
        using "1.prems"(1) \<open>currentTime < workEnd \<and> _\<close> r False vd
        by (simp add: unroll Let_def newSlot_def)
      have "s \<in> set (acc @ [newSlot preferredHours dur currentTime]) \<or>
          (\<exists>t r. currentTime + 30 * 60000 \<le> t \<and> t + dur * 60000 \<le> workEnd \<and>
             checkConflicts getEvents t (t + dur * 60000) conflict_check_buffer = Inr r \<and>
             \<not> hasConflicts r \<and> s = newSlot preferredHours dur t)"
        using "1.IH" [of "currentTime + dur * 60000" r] \<open>currentTime < workEnd \<and> _\<close>
              r run "1.prems"(2) False vd
        by (simp add: newSlot_def)
      then show ?thesis
      proof
        assume "s \<in> set (acc @ [newSlot preferredHours dur currentTime])"
        then show ?thesis
          using r False \<open>currentTime < workEnd \<and> _\<close> by auto
      next
        assume "\<exists>t r. currentTime + 30 * 60000 \<le> t \<and> t + dur * 60000 \<le> workEnd \<and>
             checkConflicts getEvents t (t + dur * 60000) conflict_check_buffer = Inr r \<and>
             \<not> hasConflicts r \<and> s = newSlot preferredHours dur t"
        then show ?thesis by force
      qed
    qed
  qed
qed


lemma findSlotsForDay_members:
  assumes "findSlotsForDay wh getEvents now date dur preferredHours = Inr slots"
    and "s \<in> set slots"
  shows "\<exists>t r. now \<le> date \<and> effectiveWorkStart wh now date \<le> t \<and>
           t + dur * 60000 \<le> setHours date (wh_end wh) 0 0 0 \<and>
           checkConflicts getEvents t (t + dur * 60000) conflict_check_buffer = Inr r \<and>
           \<not> hasConflicts r \<and> s = newSlot preferredHours dur t"
proof (cases "date < now")
  case True
  with assms show ?thesis by (simp add: findSlotsForDay_def)
next
  case False
  then have "findSlotsForDay_loop getEvents preferredHours dur (setHours date (wh_end wh) 0 0 0)
               (effectiveWorkStart wh now date) [] = Inr slots"
    using assms(1) by (simp add: findSlotsForDay_def Let_def split: sum.splits)
  from findSlotsForDay_loop_members [OF this assms(2)] False show ?thesis
    by auto
qed

text \<open>
  C8. Every slot that \<open>findSlotsForDay\<close> returns ends exactly \<open>dur\<close> minutes
  (\<open>dur * 60000\<close> milliseconds) after it starts, carries \<open>dur\<close> as its duration, and has
  its conflict flag false.
\<close>

theorem findSlotsForDay_slot_shape:
  assumes "findSlotsForDay wh getEvents now date dur preferredHours = Inr slots"
    and "s \<in> set slots"
  shows "slot_end s - slot_start s = dur * 60000 \<and> duration s = dur \<and> conflicts s = False"
  using findSlotsForDay_members [OF assms] by (auto simp: newSlot_def)

text \<open>
  Work hours 9 to 11, an empty calendar, 08:00 on the day: three one-hour slots, at 09:00,
  09:30 and 10:00.
\<close>

lemma findSlotsForDay_morning:
  "findSlotsForDay \<lparr>wh_start = 9, wh_end = 11\<rparr> (\<lambda>a b. Inr []) 1728028800000 1728028800000
     60 [9, 10] =
   Inr [\<lparr>slot_start = 1728032400000, slot_end = 1728036000000, duration = 60,
          quality = excellent, conflicts = False\<rparr>,
        \<lparr>slot_start = 1728034200000, slot_end = 1728037800000, duration = 60,
          quality = excellent, conflicts = False\<rparr>,
        \<lparr>slot_start = 1728036000000, slot_end = 1728039600000, duration = 60,
          quality = excellent, conflicts = False\<rparr>]"
  by code_simp

theorem findSlotsForDay_slot_shape_witness:
  "findSlotsForDay \<lparr>wh_start = 9, wh_end = 11\<rparr> (\<lambda>a b. Inr []) 1728028800000 1728028800000
     60 [9, 10] =
   Inr [\<lparr>slot_start = 1728032400000, slot_end = 1728036000000, duration = 60,
          quality = excellent, conflicts = False\<rparr>,
        \<lparr>slot_start = 1728034200000, slot_end = 1728037800000, duration = 60,
          quality = excellent, conflicts = False\<rparr>,
        \<lparr>slot_start = 1728036000000, slot_end = 1728039600000, duration = 60,
          quality = excellent, conflicts = False\<rparr>] \<and>
   slot_end \<lparr>slot_start = 1728034200000, slot_end = 1728037800000, duration = 60,
             quality = excellent, conflicts = False\<rparr>
     - slot_start \<lparr>slot_start = 1728034200000, slot_end = 1728037800000, duration = 60,
                   quality = excellent, conflicts = False\<rparr> = 60 * 60000"
  using findSlotsForDay_slot_shape
          [OF findSlotsForDay_morning,
           of "\<lparr>slot_start = 1728034200000, slot_end = 1728037800000, duration = 60,
                 quality = excellent, conflicts = False\<rparr>"]
        findSlotsForDay_morning
  by simp

lemma effectiveWorkStart_today:
  assumes "toDateString date = toDateString now"
  shows "effectiveWorkStart wh now date =
           max (setHours date (wh_start wh) 0 0 0) (now + 60 * 60 * 1000)"
  using assms by (simp add: effectiveWorkStart_def Let_def max_def)

text \<open>
  C4. When \<open>findSlotsForDay\<close> is called for the current date, the start of the working
  window is \<open>now + 60\<close> minutes whenever that instant is later than the configured work
  start, and every slot returned starts at or after \<open>now + 60\<close> minutes.
\<close>

theorem findSlotsForDay_today_lead:
  assumes "toDateString date = toDateString now"
  shows "(now + 60 * 60 * 1000 > setHours date (wh_start wh) 0 0 0 \<longrightarrow>
            effectiveWorkStart wh now date = now + 60 * 60 * 1000) \<and>
         (\<forall>slots. findSlotsForDay wh getEvents now date dur preferredHours = Inr slots \<longrightarrow>
            (\<forall>s \<in> set slots. now + 60 * 60 * 1000 \<le> slot_start s))"
proof (intro conjI allI impI ballI)
  assume "now + 60 * 60 * 1000 > setHours date (wh_start wh) 0 0 0"
  then show "effectiveWorkStart wh now date = now + 60 * 60 * 1000"
    by (simp add: effectiveWorkStart_today [OF assms] max_def)
next
  fix slots s
  assume "findSlotsForDay wh getEvents now date dur preferredHours = Inr slots" "s \<in> set slots"
  from findSlotsForDay_members [OF this]
  obtain t where "effectiveWorkStart wh now date \<le> t" "s = newSlot preferredHours dur t"
    by blast
  then show "now + 60 * 60 * 1000 \<le> slot_start s"
    by (simp add: effectiveWorkStart_today [OF assms] newSlot_def)
qed


text \<open>
  Work hours 9 to 17, an empty calendar, 15:20 on the day, 30 minutes: the one slot is at
  16:20.
\<close>

lemma findSlotsForDay_afternoon:
  "findSlotsForDay \<lparr>wh_start = 9, wh_end = 17\<rparr> (\<lambda>a b. Inr []) 1728055200000 1728055200000
     30 [9, 10] =
   Inr [\<lparr>slot_start = 1728058800000, slot_end = 1728060600000, duration = 30,
          quality = acceptable, conflicts = False\<rparr>]"
  by code_simp

theorem findSlotsForDay_today_lead_witness:
  "toDateString 1728055200000 = toDateString 1728055200000 \<and>
   effectiveWorkStart \<lparr>wh_start = 9, wh_end = 17\<rparr> 1728055200000 1728055200000
     = 1728055200000 + 60 * 60 * 1000 \<and>
   findSlotsForDay \<lparr>wh_start = 9, wh_end = 17\<rparr> (\<lambda>a b. Inr []) 1728055200000 1728055200000
     30 [9, 10] =
   Inr [\<lparr>slot_start = 1728058800000, slot_end = 1728060600000, duration = 30,
          quality = acceptable, conflicts = False\<rparr>] \<and>
   (1728055200000 :: int) + 60 * 60 * 1000 \<le> 1728058800000"
  using findSlotsForDay_today_lead
          [of 1728055200000 1728055200000 "\<lparr>wh_start = 9, wh_end = 17\<rparr>" "\<lambda>a b. Inr []"
              30 "[9, 10]"]
        findSlotsForDay_afternoon
  by (simp add: setHours_def DAY_def HOUR_def MINUTE_def)

section \<open>The slot search\<close>


lemma set_insert_by: "set (insert_by cmp x xs) = insert x (set xs)"
  by (induction xs) auto

lemma set_array_sort: "set (array_sort cmp xs) = set xs"
  unfolding array_sort_def by (induction xs) (simp_all add: set_insert_by)

lemma length_insert_by: "length (insert_by cmp x xs) = Suc (length xs)"
  by (induction xs) auto

lemma length_array_sort: "length (array_sort cmp xs) = length xs"
  unfolding array_sort_def by (induction xs) (simp_all add: length_insert_by)




section \<open>Scheduling a task\<close>







lemma selectBestSlot_Some:
  assumes "slots \<noteq> []"
  shows "\<exists>s. selectBestSlot slots taskData urgency = Some s \<and> s \<in> set slots"
proof -
  let ?g = "filter (\<lambda>s. quality s = excellent \<or> quality s = good) slots"
  have "?g \<noteq> [] \<Longrightarrow> ?g ! 0 \<in> set slots"
  proof -
    assume "?g \<noteq> []"
    then have "0 < length ?g" by simp
    then have "?g ! 0 \<in> set ?g" by (rule nth_mem)
    moreover have "set ?g \<subseteq> set slots" by (rule filter_is_subset)
    ultimately show ?thesis by (rule subsetD [rotated])
  qed
  moreover have "slots ! 0 \<in> set slots" using assms by simp
  ultimately show ?thesis using assms
    by (auto simp: selectBestSlot_def Let_def)
qed

text \<open>Once a slot is selected, the rest of \<open>scheduleTask\<close>.\<close>

lemma scheduleTask_selected:
  assumes "valid (validateTaskData taskData)"
    and "map_of FOCUS_TYPE_CONFIGS (focus_type taskData) = Some focusConfig"
    and "findOptimalTimeSlots wh getEvents now taskData focusConfig = Inr timeSlots"
    and "selectBestSlot timeSlots taskData (calculateUrgency now taskData) = Some bestSlot"
  shows "scheduleTask wh getEvents updateTask now taskData =
          (if slot_start bestSlot < now + 30 * 60 * 1000 then
             (failure Error (TooSoon (slot_start bestSlot)), [])
           else if \<not> updateTask (task_id taskData)
                       \<lparr>time_block_start = slot_start bestSlot,
                        time_block_end = slot_end bestSlot,
                        scheduling_status = ''Scheduled'',
                        scheduling_message = ScheduledFor (formatTimeSlot bestSlot)\<rparr> then
             (failure Error NotionUpdateFailed,
              [(task_id taskData,
                \<lparr>time_block_start = slot_start bestSlot,
                 time_block_end = slot_end bestSlot,
                 scheduling_status = ''Scheduled'',
                 scheduling_message = ScheduledFor (formatTimeSlot bestSlot)\<rparr>)])
           else
             (\<lparr>success = True,
               scheduled_time = Some (slot_start bestSlot, slot_end bestSlot),
               status = Scheduled,
               message = TaskScheduledFor (formatTimeSlot bestSlot),
               alternative_slots = None\<rparr>,
              [(task_id taskData,
                \<lparr>time_block_start = slot_start bestSlot,
                 time_block_end = slot_end bestSlot,
                 scheduling_status = ''Scheduled'',
                 scheduling_message = ScheduledFor (formatTimeSlot bestSlot)\<rparr>)]))"
proof -
  have "timeSlots \<noteq> []" using assms(4) by (auto simp: selectBestSlot_def)
  then show ?thesis
    using assms by (simp add: scheduleTask_def Let_def validateScheduledTime_def)
qed

lemma scheduleTask_outcomes:
  "status (fst (scheduleTask wh getEvents updateTask now taskData)) = Error \<or>
   scheduleTask wh getEvents updateTask now taskData = (failure NoSlots NoAvailableSlots, []) \<or>
   status (fst (scheduleTask wh getEvents updateTask now taskData)) = Scheduled"
proof (cases "valid (validateTaskData taskData)")
  case False
  then show ?thesis by (simp add: scheduleTask_def Let_def failure_def)
next
  case True
  show ?thesis
  proof (cases "map_of FOCUS_TYPE_CONFIGS (focus_type taskData)")
    case None
    with True show ?thesis by (simp add: scheduleTask_def Let_def failure_def)
  next
    case (Some focusConfig)
    show ?thesis
    proof (cases "findOptimalTimeSlots wh getEvents now taskData focusConfig")
      case (Inl e)
      with True Some show ?thesis by (simp add: scheduleTask_def Let_def failure_def)
    next
      case (Inr timeSlots)
      show ?thesis
      proof (cases "timeSlots = []")
        case True
        with \<open>valid (validateTaskData taskData)\<close> Some Inr show ?thesis
          by (simp add: scheduleTask_def Let_def)
      next
        case False
        then obtain bestSlot where
          "selectBestSlot timeSlots taskData (calculateUrgency now taskData) = Some bestSlot"
          using selectBestSlot_Some by blast
        from scheduleTask_selected [OF True Some Inr this, of updateTask]
        show ?thesis by (simp add: failure_def)
      qed
    qed
  qed
qed

lemma failure_status: "status (failure st msg) = st"
  by (simp add: failure_def)

text \<open>
  C9. The outcome of \<open>scheduleTask\<close> never has the status \<open>conflict\<close>: it is
  \<open>scheduled\<close>, \<open>no_slots\<close> or \<open>error\<close>, for every configuration, calendar, task
  store, instant and task.
\<close>

theorem scheduleTask_never_conflict:
  "status (fst (scheduleTask wh getEvents updateTask now taskData)) \<noteq> Conflict \<and>
   status (fst (scheduleTask wh getEvents updateTask now taskData)) \<in> {Scheduled, NoSlots, Error}"
  using scheduleTask_outcomes [of wh getEvents updateTask now taskData]
  by (auto simp: failure_status)

lemma callTask_config:
  "map_of FOCUS_TYPE_CONFIGS (focus_type callTask) = Some callsConfig"
  by (simp add: FOCUS_TYPE_CONFIGS_def callTask_def callsConfig_def)

lemma callTask_valid: "valid (validateTaskData callTask)"
  by (simp add: validateTaskData_def FOCUS_TYPE_CONFIGS_def callTask_def)

lemma callTask_urgency: "calculateUrgency 1728064800000 callTask = 1"
  by (simp add: calculateUrgency_def callTask_def diff_days_def DAY_def PRIORITY_WEIGHTS_def
        Let_def)

text \<open>
  The call task at 18:00, default work hours, a conference from 11:05 of the next day on:
  the free slots are 09:00, 09:30 and 10:00 of the next day; the hour 9 is next to the
  preferred hours of calls, the hour 10 is one of them.
\<close>

lemma callTask_slots:
  "findOptimalTimeSlots \<lparr>wh_start = 9, wh_end = 17\<rparr> (conferenceFrom 1728126300000)
     1728064800000 callTask callsConfig =
   Inr [\<lparr>slot_start = 1728122400000, slot_end = 1728126000000, duration = 60,
          quality = excellent, conflicts = False\<rparr>,
        \<lparr>slot_start = 1728118800000, slot_end = 1728122400000, duration = 60,
          quality = good, conflicts = False\<rparr>,
        \<lparr>slot_start = 1728120600000, slot_end = 1728124200000, duration = 60,
          quality = good, conflicts = False\<rparr>]"
  by code_simp

theorem scheduleTask_never_conflict_witness:
  "status (fst (scheduleTask \<lparr>wh_start = 9, wh_end = 17\<rparr> (conferenceFrom 1728126300000)
                  (\<lambda>i u. True) 1728064800000 callTask)) \<noteq> Conflict"
  using scheduleTask_never_conflict
          [of "\<lparr>wh_start = 9, wh_end = 17\<rparr>" "conferenceFrom 1728126300000" "\<lambda>i u. True"
              1728064800000 callTask]
  by simp

text \<open>
  C10. \<open>selectBestSlot\<close> returns a slot of the list for every non-empty list, so the
  branch of \<open>scheduleTask\<close> that attaches alternative slots is never taken: an outcome
  of status \<open>no_slots\<close> carries no alternative slots, and its message is the one of the
  empty slot list.
\<close>

theorem selectBestSlot_never_null:
  "(slots \<noteq> [] \<longrightarrow> (\<exists>s. selectBestSlot slots taskData urgency = Some s \<and> s \<in> set slots)) \<and>
   (status (fst (scheduleTask wh getEvents updateTask now task)) = NoSlots \<longrightarrow>
      alternative_slots (fst (scheduleTask wh getEvents updateTask now task)) = None \<and>
      message (fst (scheduleTask wh getEvents updateTask now task)) = NoAvailableSlots)"
proof (intro conjI impI)
  assume "slots \<noteq> []"
  then show "\<exists>s. selectBestSlot slots taskData urgency = Some s \<and> s \<in> set slots"
    by (rule selectBestSlot_Some)
next
  assume ns: "status (fst (scheduleTask wh getEvents updateTask now task)) = NoSlots"
  have run: "scheduleTask wh getEvents updateTask now task
                    = (failure NoSlots NoAvailableSlots, [])"
    using scheduleTask_outcomes [of wh getEvents updateTask now task] ns by auto
  show "alternative_slots (fst (scheduleTask wh getEvents updateTask now task)) = None"
    unfolding run by (simp add: failure_def)
  show "message (fst (scheduleTask wh getEvents updateTask now task)) = NoAvailableSlots"
    unfolding run by (simp add: failure_def)
qed

lemma workshopTask_no_slots:
  "scheduleTask \<lparr>wh_start = 9, wh_end = 17\<rparr> (\<lambda>a b. Inr []) (\<lambda>i u. True) 1728028800000
     workshopTask =
   (\<lparr>success = False, scheduled_time = None, status = NoSlots, message = NoAvailableSlots,
     alternative_slots = None\<rparr>, [])"
  by code_simp

theorem selectBestSlot_never_null_witness:
  "(\<exists>s. selectBestSlot
          [\<lparr>slot_start = 1728036000000, slot_end = 1728039600000, duration = 60,
             quality = acceptable, conflicts = False\<rparr>] inboxTask (3 / 5) = Some s) \<and>
   status (fst (scheduleTask \<lparr>wh_start = 9, wh_end = 17\<rparr> (\<lambda>a b. Inr []) (\<lambda>i u. True)
                  1728028800000 workshopTask)) = NoSlots \<and>
   alternative_slots (fst (scheduleTask \<lparr>wh_start = 9, wh_end = 17\<rparr> (\<lambda>a b. Inr [])
                             (\<lambda>i u. True) 1728028800000 workshopTask)) = None"
  using selectBestSlot_never_null
          [of "[\<lparr>slot_start = 1728036000000, slot_end = 1728039600000, duration = 60,
                  quality = acceptable, conflicts = False\<rparr>]" inboxTask "3 / 5"
              "\<lparr>wh_start = 9, wh_end = 17\<rparr>" "\<lambda>a b. Inr []" "\<lambda>i u. True"
              1728028800000 workshopTask]
        workshopTask_no_slots
  by auto

text \<open>
  C5. When the slot search has returned slots, a slot has been selected and its start is
  earlier than \<open>now + 30\<close> minutes, \<open>scheduleTask\<close> returns the outcome of status
  \<open>error\<close> with the too-soon message, which is not \<open>no_slots\<close>, and makes no call to
  the task store.
\<close>

theorem scheduleTask_too_soon:
  assumes "valid (validateTaskData taskData)"
    and "map_of FOCUS_TYPE_CONFIGS (focus_type taskData) = Some focusConfig"
    and "findOptimalTimeSlots wh getEvents now taskData focusConfig = Inr timeSlots"
    and "selectBestSlot timeSlots taskData (calculateUrgency now taskData) = Some bestSlot"
    and "slot_start bestSlot < now + 30 * 60 * 1000"
  shows "scheduleTask wh getEvents updateTask now taskData
           = (failure Error (TooSoon (slot_start bestSlot)), []) \<and>
         status (fst (scheduleTask wh getEvents updateTask now taskData)) = Error \<and>
         status (fst (scheduleTask wh getEvents updateTask now taskData)) \<noteq> NoSlots \<and>
         snd (scheduleTask wh getEvents updateTask now taskData) = []"
  using scheduleTask_selected [OF assms(1-4), of updateTask] assms(5)
  by (simp add: failure_def)


text \<open>
  The inbox task at 23:50 with work hours 0 to 1 and a conference from the next morning
  on: the only slot is at 00:00 of the next day, ten minutes ahead.
\<close>

lemma inboxTask_config:
  "map_of FOCUS_TYPE_CONFIGS (focus_type inboxTask) = Some adminConfig"
  by (simp add: FOCUS_TYPE_CONFIGS_def inboxTask_def adminConfig_def)

lemma inboxTask_valid: "valid (validateTaskData inboxTask)"
  by (simp add: validateTaskData_def FOCUS_TYPE_CONFIGS_def inboxTask_def)

lemma inboxTask_slots:
  "findOptimalTimeSlots \<lparr>wh_start = 0, wh_end = 1\<rparr> (conferenceFrom 1728100000000)
     1728085800000 inboxTask adminConfig =
   Inr [\<lparr>slot_start = 1728086400000, slot_end = 1728090000000, duration = 60,
          quality = acceptable, conflicts = False\<rparr>]"
  by code_simp

lemma inboxTask_best:
  "selectBestSlot
     [\<lparr>slot_start = 1728086400000, slot_end = 1728090000000, duration = 60,
        quality = acceptable, conflicts = False\<rparr>] inboxTask
     (calculateUrgency 1728085800000 inboxTask) =
   Some \<lparr>slot_start = 1728086400000, slot_end = 1728090000000, duration = 60,
          quality = acceptable, conflicts = False\<rparr>"
  by (simp add: selectBestSlot_def Let_def)

theorem scheduleTask_too_soon_witness:
  "(1728086400000 :: int) < 1728085800000 + 30 * 60 * 1000 \<and>
   scheduleTask \<lparr>wh_start = 0, wh_end = 1\<rparr> (conferenceFrom 1728100000000) (\<lambda>i u. True)
     1728085800000 inboxTask =
   (\<lparr>success = False, scheduled_time = None, status = Error,
     message = TooSoon 1728086400000, alternative_slots = None\<rparr>, [])"
  using scheduleTask_too_soon
          [OF inboxTask_valid inboxTask_config inboxTask_slots inboxTask_best,
           of "\<lambda>i u. True"]
  by (simp add: failure_def)

section \<open>Urgency\<close>

lemma calculateUrgency_eq:
  "calculateUrgency now taskData =
     min (priorityWeight (priority taskData) * 0.3
          + timeUrgency (diff_days (due_date taskData) now)) 1.0"
  by (simp add: calculateUrgency_def Let_def PRIORITY_WEIGHTS_def priorityWeight_def
        timeUrgency_def)

lemma priorityWeight_pos: "1 \<le> priorityWeight p"
  by (cases p) (simp_all add: priorityWeight_def)

lemma timeUrgency_nonneg: "0 \<le> timeUrgency d"
  by (simp add: timeUrgency_def)

text \<open>
  C6. \<open>calculateUrgency\<close> returns \<open>priorityWeight(priority) * 0.3 +
  timeUrgency(daysUntilDue)\<close>, clamped above at 1.0, and the result lies between 0 and 1.
  (The arithmetic is exact here; the source computes the same sum in floating point.)
\<close>

theorem calculateUrgency_formula:
  "calculateUrgency now taskData =
     min (priorityWeight (priority taskData) * 0.3
          + timeUrgency (diff_days (due_date taskData) now)) 1.0 \<and>
   0 \<le> calculateUrgency now taskData \<and> calculateUrgency now taskData \<le> 1"
proof -
  have "0 \<le> priorityWeight (priority taskData) * 0.3
          + timeUrgency (diff_days (due_date taskData) now)"
    using priorityWeight_pos [of "priority taskData"]
          timeUrgency_nonneg [of "diff_days (due_date taskData) now"]
    by simp
  then show ?thesis
    unfolding calculateUrgency_eq by simp
qed


theorem calculateUrgency_formula_witness:
  "calculateUrgency 1728064800000 callTask = 1 \<and>
   calculateUrgency 1728085800000 inboxTask = 3 / 5"
  using calculateUrgency_formula [of 1728064800000 callTask]
        calculateUrgency_formula [of 1728085800000 inboxTask]
  by (simp add: priorityWeight_def timeUrgency_def diff_days_def DAY_def callTask_def
        inboxTask_def)

section \<open>The slot scorer\<close>

lemma calculateSlotQuality_never_poor:
  "SchedulingService_calculateSlotQuality now slot taskData focusConfig \<noteq> poor"
  by (simp add: SchedulingService_calculateSlotQuality_def Let_def split: option.splits)

lemma filterAndScoreSlots_quality:
  assumes "s \<in> set (filterAndScoreSlots now slots taskData focusConfig)"
  shows "\<exists>slot \<in> set slots.
           s = slot\<lparr>quality := SchedulingService_calculateSlotQuality now slot taskData focusConfig\<rparr>"
  using assms unfolding filterAndScoreSlots_def set_array_sort by auto

text \<open>
  C7. For a task of priority High the slot scorer never returns the tier \<open>poor\<close>, for any
  slot, focus profile and instant; so no slot that comes out of the filtering and scoring
  stage for such a task has the tier \<open>poor\<close>.
\<close>

theorem calculateSlotQuality_High_not_poor:
  assumes "priority taskData = High"
  shows "SchedulingService_calculateSlotQuality now slot taskData focusConfig \<noteq> poor \<and>
         (\<forall>s \<in> set (filterAndScoreSlots now slots taskData focusConfig). quality s \<noteq> poor)"
proof (intro conjI ballI)
  show "SchedulingService_calculateSlotQuality now slot taskData focusConfig \<noteq> poor"
    using assms
    by (simp add: SchedulingService_calculateSlotQuality_def Let_def split: option.splits)
next
  fix s assume "s \<in> set (filterAndScoreSlots now slots taskData focusConfig)"
  then obtain slot0 where
    "s = slot0\<lparr>quality := SchedulingService_calculateSlotQuality now slot0 taskData focusConfig\<rparr>"
    using filterAndScoreSlots_quality by blast
  then show "quality s \<noteq> poor"
    using calculateSlotQuality_never_poor by simp
qed


theorem calculateSlotQuality_High_not_poor_witness:
  "priority callTask = High \<and>
   SchedulingService_calculateSlotQuality 1728028800000
     \<lparr>slot_start = 1728032400000, slot_end = 1728036000000, duration = 60,
      quality = poor, conflicts = False\<rparr> callTask callsConfig \<noteq> poor"
  using calculateSlotQuality_High_not_poor
          [of callTask 1728028800000
              "\<lparr>slot_start = 1728032400000, slot_end = 1728036000000, duration = 60,
                 quality = poor, conflicts = False\<rparr>" callsConfig "[]"]
  by (simp add: callTask_def)

section \<open>Selection\<close>

lemma top_first_insert_by:
  assumes "top_first xs"
  shows "top_first (insert_by compareSlots x xs)"
proof (cases xs)
  case Nil
  then show ?thesis by (simp add: top_first_def)
next
  case (Cons y ys)
  show ?thesis
  proof (cases "compareSlots x y \<le> 0")
    case True
    then have "qualityOrder (quality y) \<le> qualityOrder (quality x)"
      by (simp add: compareSlots_def Let_def split: if_splits)
    with assms Cons True show ?thesis
      by (auto simp: top_first_def)
  next
    case False
    then have "qualityOrder (quality x) \<le> qualityOrder (quality y)"
      by (simp add: compareSlots_def Let_def split: if_splits)
    with assms Cons False show ?thesis
      by (auto simp: top_first_def set_insert_by)
  qed
qed

lemma top_first_array_sort: "top_first (array_sort compareSlots xs)"
  unfolding array_sort_def
  by (induction xs) (simp_all add: top_first_def top_first_insert_by [unfolded top_first_def])

lemma qualityOrder_good: "(q = excellent \<or> q = good) \<longleftrightarrow> 3 \<le> qualityOrder q"
  by (cases q) (simp_all add: qualityOrder_def)

lemma selectBestSlot_top_first:
  assumes "top_first slots" and "slots \<noteq> []"
  shows "selectBestSlot slots taskData urgency = Some (slots ! 0)"
proof -
  let ?P = "\<lambda>s. quality s = excellent \<or> quality s = good"
  obtain y ys where slots: "slots = y # ys" using assms(2) by (cases slots) auto
  have "filter ?P slots ! 0 = slots ! 0" if ne: "filter ?P slots \<noteq> []"
  proof -
    from ne obtain s where "s \<in> set slots" "?P s"
      by (auto simp: filter_empty_conv)
    then have "3 \<le> qualityOrder (quality (slots ! 0))"
      using assms(1) qualityOrder_good [of "quality s"] by (fastforce simp: top_first_def)
    then have "?P y" using slots qualityOrder_good [of "quality y"] by simp
    then show ?thesis using slots by simp
  qed
  then show ?thesis using assms(2)
    by (auto simp: selectBestSlot_def Let_def)
qed

text \<open>
  On the list that the filtering and scoring stage returns, \<open>selectBestSlot\<close> returns
  the first slot whatever the urgency is: the list is sorted by tier first, so its first
  slot of tier excellent or good, when there is one, is its first slot.
\<close>

lemma selectBestSlot_urgency_irrelevant:
  "filterAndScoreSlots now slots taskData focusConfig \<noteq> [] \<Longrightarrow>
   selectBestSlot (filterAndScoreSlots now slots taskData focusConfig) taskData urgency
     = Some (filterAndScoreSlots now slots taskData focusConfig ! 0)"
  by (rule selectBestSlot_top_first) (simp_all add: filterAndScoreSlots_def top_first_array_sort)


text \<open>
  C1. A run in which the high-urgency branch of \<open>selectBestSlot\<close> does not return the
  earliest slot of tier excellent or good: the call task (priority High, overdue, urgency
  1) at 18:00 with slots on the next day at 09:00 (good), 09:30 (good) and 10:00
  (excellent). The list is
  sorted by tier first, so its first good-or-excellent slot is the one at 10:00; that slot
  is selected and scheduled, although the slot at 09:00 has tier good and starts earlier.
\<close>

theorem selectBestSlot_high_urgency_example:
  "calculateUrgency 1728064800000 callTask = 1 \<and>
   findOptimalTimeSlots \<lparr>wh_start = 9, wh_end = 17\<rparr> (conferenceFrom 1728126300000)
     1728064800000 callTask callsConfig =
   Inr [\<lparr>slot_start = 1728122400000, slot_end = 1728126000000, duration = 60,
          quality = excellent, conflicts = False\<rparr>,
        \<lparr>slot_start = 1728118800000, slot_end = 1728122400000, duration = 60,
          quality = good, conflicts = False\<rparr>,
        \<lparr>slot_start = 1728120600000, slot_end = 1728124200000, duration = 60,
          quality = good, conflicts = False\<rparr>] \<and>
   selectBestSlot
     [\<lparr>slot_start = 1728122400000, slot_end = 1728126000000, duration = 60,
        quality = excellent, conflicts = False\<rparr>,
      \<lparr>slot_start = 1728118800000, slot_end = 1728122400000, duration = 60,
        quality = good, conflicts = False\<rparr>,
      \<lparr>slot_start = 1728120600000, slot_end = 1728124200000, duration = 60,
        quality = good, conflicts = False\<rparr>] callTask 1 =
   Some \<lparr>slot_start = 1728122400000, slot_end = 1728126000000, duration = 60,
          quality = excellent, conflicts = False\<rparr> \<and>
   scheduled_time
     (fst (scheduleTask \<lparr>wh_start = 9, wh_end = 17\<rparr> (conferenceFrom 1728126300000)
             (\<lambda>i u. True) 1728064800000 callTask)) =
   Some (1728122400000, 1728126000000)"
proof -
  let ?best = "\<lparr>slot_start = 1728122400000, slot_end = 1728126000000, duration = 60,
                 quality = excellent, conflicts = False\<rparr>"
  let ?slots = "[?best,
                 \<lparr>slot_start = 1728118800000, slot_end = 1728122400000, duration = 60,
                  quality = good, conflicts = False\<rparr>,
                 \<lparr>slot_start = 1728120600000, slot_end = 1728124200000, duration = 60,
                  quality = good, conflicts = False\<rparr>]"
  have sel: "selectBestSlot ?slots callTask 1 = Some ?best"
    by (simp add: selectBestSlot_def Let_def)
  then have "selectBestSlot ?slots callTask (calculateUrgency 1728064800000 callTask)
               = Some ?best"
    by (simp only: callTask_urgency)
  from scheduleTask_selected [OF callTask_valid callTask_config callTask_slots this,
                              of "\<lambda>i u. True"]
  have "scheduled_time
          (fst (scheduleTask \<lparr>wh_start = 9, wh_end = 17\<rparr> (conferenceFrom 1728126300000)
                  (\<lambda>i u. True) 1728064800000 callTask)) =
        Some (1728122400000, 1728126000000)"
    by simp
  with sel callTask_urgency callTask_slots show ?thesis by simp
qed

end
